theory Spec2Isabelle
  imports Main
begin

section \<open>The gitremote tester of kubetest2: pkg/tester/tester.go\<close>

text \<open>
  The package parses flags into a \<open>Tester\<close>, clones a git repository, builds the command
  line of the ginkgo test runner and runs it. Every function of the package is embedded
  below under its own name. What the package calls in other modules (the flag library, the
  git library, the process environment, the subprocess) is not part of the repository: its
  outcome is read from a record \<open>world\<close>, and every call is written to a trace of
  events, so that "no subprocess is launched" and "the clone is attempted once" are
  statements about that trace.
\<close>

subsection \<open>Library functions on strings and numbers\<close>

text \<open>
  Modelled from the spec: the parallelism flag is \<open>--nodes=<N>\<close>, where \<open>Test\<close> writes the
  number with \<open>strconv.Itoa\<close> of Go's standard library, which is not part of the
  repository. \<open>Itoa\<close> writes a Go \<open>int\<close> in base 10, with a leading minus sign for a
  negative number. A Go \<open>int\<close> is modelled by \<open>int\<close>: the package does no arithmetic on
  it.
\<close>

definition digit_char :: "nat \<Rightarrow> char" where
  "digit_char d = char_of (48 + d)"

function decimal :: "nat \<Rightarrow> string" where
  "decimal n = (if n < 10 then [digit_char n] else decimal (n div 10) @ [digit_char (n mod 10)])"
  by pat_completeness auto
termination
  by (relation "measure (\<lambda>n. n)") auto

declare decimal.simps [simp del]

definition Itoa :: "int \<Rightarrow> string" where
  "Itoa i = (if i < 0 then CHR ''-'' # decimal (nat (- i)) else decimal (nat i))"

text \<open>
  Modelled from the spec: the timeout is "formatted as the duration's canonical string
  representation", which \<open>Test\<close> gets from \<open>Duration.String\<close> of Go's package \<open>time\<close>, not
  part of the repository. \<open>time.Duration\<close> is a signed 64-bit count of nanoseconds, and
  \<open>Duration.String\<close> prints it as \<open>72h3m0.5s\<close>: below one second in the units ns, us
  (written with the micro sign, the two bytes C2 B5) and ms, otherwise hours, minutes and
  seconds, the fraction without trailing zeros. \<open>fmtFrac\<close> and \<open>fmtInt\<close> are the two
  helpers of that package; its byte buffer, filled from the right, is the string built
  from the right here.
\<close>

definition Microsecond :: nat where "Microsecond = 1000"
definition Millisecond :: nat where "Millisecond = 1000 * 1000"
definition Second :: nat where "Second = 1000 * 1000 * 1000"
definition Hour :: int where "Hour = 60 * 60 * 1000 * 1000 * 1000"

definition fmtInt :: "string \<Rightarrow> nat \<Rightarrow> string" where
  "fmtInt buf v = decimal v @ buf"

primrec fmtFrac_loop :: "nat \<Rightarrow> string \<Rightarrow> nat \<Rightarrow> bool \<Rightarrow> string \<times> nat \<times> bool" where
  "fmtFrac_loop 0 buf v print = (buf, v, print)"
| "fmtFrac_loop (Suc i) buf v print =
     (let digit = v mod 10;
          print' = (print \<or> digit \<noteq> 0);
          buf' = (if print' then digit_char digit # buf else buf)
      in fmtFrac_loop i buf' (v div 10) print')"

definition fmtFrac :: "string \<Rightarrow> nat \<Rightarrow> nat \<Rightarrow> string \<times> nat" where
  "fmtFrac buf v prec =
     (case fmtFrac_loop prec buf v False of
        (buf', v', print) \<Rightarrow> (if print then CHR ''.'' # buf' else buf', v'))"

definition Duration_String :: "int \<Rightarrow> string" where
  "Duration_String d =
     (let u = nat \<bar>d\<bar>;
          neg = (d < 0);
          body =
            (if u < Second then
               (if u = 0 then ''0s''
                else
                  (let (prec, unit) =
                         (if u < Microsecond then (0, ''ns'')
                          else if u < Millisecond then (3, [char_of (194::nat), char_of (181::nat), CHR ''s''])
                          else (6, ''ms''))
                   in case fmtFrac unit u prec of (buf, u') \<Rightarrow> fmtInt buf u'))
             else
               (case fmtFrac ''s'' u 9 of
                  (buf, secs) \<Rightarrow>
                    (let buf1 = fmtInt buf (secs mod 60);
                         mins = secs div 60
                     in if mins > 0 then
                          (let buf2 = fmtInt (CHR ''m'' # buf1) (mins mod 60);
                               hours = mins div 60
                           in if hours > 0 then fmtInt (CHR ''h'' # buf2) hours else buf2)
                        else buf1)))
      in if neg then CHR ''-'' # body else body)"

text \<open>
  Modelled from the spec: \<open>shellquote.Split\<close> (module github.com/kballard/go-shellquote) is
  called by \<open>Test\<close> but its source is not part of the repository. The spec asks for
  "shell-word-splitting rules (supports quoting/escaping)" that fail on a malformed string
  (unbalanced quotes). The model follows the word splitting of /bin/sh as that library does
  it: words are separated by spaces, newlines and tabs; a single-quoted stretch is taken
  as it is; inside double quotes a backslash escapes only dollar, backquote, double quote,
  backslash and newline; elsewhere a backslash escapes the next character; a
  backslash-newline pair is dropped. An open quote or a trailing backslash is an error,
  given by its message.
\<close>

definition UnterminatedSingleQuoteError :: string where
  "UnterminatedSingleQuoteError = ''Unterminated single-quoted string''"

definition UnterminatedDoubleQuoteError :: string where
  "UnterminatedDoubleQuoteError = ''Unterminated double-quoted string''"

definition UnterminatedEscapeError :: string where
  "UnterminatedEscapeError = ''Unterminated backslash-escape''"

definition newline :: char where "newline = char_of (10::nat)"
definition tab :: char where "tab = char_of (9::nat)"
definition singleChar :: char where "singleChar = char_of (39::nat)"
definition doubleChar :: char where "doubleChar = char_of (34::nat)"
definition escapeChar :: char where "escapeChar = char_of (92::nat)"
definition backquote :: char where "backquote = char_of (96::nat)"

definition splitChars :: string where
  "splitChars = [CHR '' '', newline, tab]"

definition doubleEscapeChars :: string where
  "doubleEscapeChars = [CHR ''$'', backquote, doubleChar, newline, escapeChar]"

text \<open>
  \<open>splitWord\<close> reads one word: \<open>raw\<close>, \<open>single\<close> and \<open>double\<close> are its three scanning
  states, \<open>buf\<close> is the word read so far. It returns the word and the rest of the input.
\<close>

fun raw :: "string \<Rightarrow> string \<Rightarrow> string + (string \<times> string)"
  and single :: "string \<Rightarrow> string \<Rightarrow> string + (string \<times> string)"
  and double :: "string \<Rightarrow> string \<Rightarrow> string + (string \<times> string)"
where
  "raw buf [] = Inr (buf, [])"
| "raw buf (c # cur) =
     (if c = singleChar then single buf cur
      else if c = doubleChar then double buf cur
      else if c = escapeChar then
        (case cur of
           [] \<Rightarrow> Inl UnterminatedEscapeError
         | c2 # rest \<Rightarrow> if c2 = newline then raw buf rest else raw (buf @ [c2]) rest)
      else if c \<in> set splitChars then Inr (buf, cur)
      else raw (buf @ [c]) cur)"
| "single buf [] = Inl UnterminatedSingleQuoteError"
| "single buf (c # cur) =
     (if c = singleChar then raw buf cur else single (buf @ [c]) cur)"
| "double buf [] = Inl UnterminatedDoubleQuoteError"
| "double buf (c # cur) =
     (if c = doubleChar then raw buf cur
      else if c = escapeChar then
        (case cur of
           [] \<Rightarrow> Inl UnterminatedDoubleQuoteError
         | c2 # rest \<Rightarrow>
             if c2 \<in> set doubleEscapeChars then
               (if c2 = newline then double buf rest else double (buf @ [c2]) rest)
             else double (buf @ [c, c2]) rest)
      else double (buf @ [c]) cur)"

definition splitWord :: "string \<Rightarrow> string + (string \<times> string)" where
  "splitWord input = raw [] input"

lemma raw_single_double_shorter:
  "raw buf input = Inr (word, remainder) \<Longrightarrow> length remainder \<le> length input"
  "single buf' input' = Inr (word, remainder) \<Longrightarrow> length remainder \<le> length input'"
  "double buf'' input'' = Inr (word, remainder) \<Longrightarrow> length remainder \<le> length input''"
  by (induction buf input and buf' input' and buf'' input'' rule: raw_single_double.induct)
    (auto split: if_splits list.splits)

lemma splitWord_shorter:
  assumes "splitWord (c # input) = Inr (word, remainder)" and "c \<notin> set splitChars"
  shows "length remainder < Suc (length input)"
  using assms unfolding splitWord_def
  by (auto split: if_splits list.splits dest!: raw_single_double_shorter)

function Split :: "string \<Rightarrow> string + string list" where
  "Split [] = Inr []"
| "Split (c # next) =
     (if c \<in> set splitChars then Split next
      else if c = escapeChar \<and> next = [] then Inl UnterminatedEscapeError
      else if c = escapeChar \<and> hd next = newline then Split (tl next)
      else
        (case splitWord (c # next) of
           Inl err \<Rightarrow> Inl err
         | Inr (word, input) \<Rightarrow>
             (case Split input of
                Inl err \<Rightarrow> Inl err
              | Inr words \<Rightarrow> Inr (word # words))))"
  by pat_completeness auto
termination
proof (relation "measure length")
  show "wf (measure length)" by simp
next
  fix c :: char and "next" :: string
  show "(next, c # next) \<in> measure length" by simp
next
  fix c :: char and "next" :: string
  assume "\<not> (c = escapeChar \<and> next = [])" and "c = escapeChar \<and> hd next = newline"
  then show "(tl next, c # next) \<in> measure length" by simp
next
  fix c :: char and "next" x2 word input
  assume "c \<notin> set splitChars" and "splitWord (c # next) = Inr x2" and "(word, input) = x2"
  then show "(input, c # next) \<in> measure length"
    using splitWord_shorter [of c "next" word input] by simp
qed

declare Split.simps [simp del]

subsection \<open>The configuration record and the values around it\<close>

text \<open>
  \<open>Tester\<close> is the struct of the source, field by field. \<open>Timeout\<close> is a
  \<open>time.Duration\<close>, a count of nanoseconds. \<open>Env\<close> is a Go slice that may be nil:
  \<open>None\<close> is the nil slice, which a subprocess treats differently from an empty one.
  The last five fields are the unexported ones.
\<close>

record Tester =
  FlakeAttempts :: int
  GinkgoArgs :: string
  Parallel :: int
  SkipRegex :: string
  FocusRegex :: string
  Timeout :: int
  Env :: "string list option"
  Repo :: string
  kubeconfigPath :: string
  runDir :: string
  e2eTestPath :: string
  ginkgoPath :: string
  kubectlPath :: string

text \<open>
  A Go \<open>error\<close> is either made in this package by \<open>fmt.Errorf\<close>, or handed back by a
  callee and returned unchanged; both are known by their message. \<open>Error\<close> is the
  message, which the verb \<open>%v\<close> prints.
\<close>

datatype error = Errorf string | Foreign string

fun Error :: "error \<Rightarrow> string" where
  "Error (Errorf msg) = msg"
| "Error (Foreign msg) = msg"

text \<open>
  The command built by \<open>exec.Command\<close> of kubetest2: the program, its arguments, the
  environment given by \<open>SetEnv\<close> (nil until then) and whether \<open>InheritOutput\<close> has tied
  its output streams to those of the parent.
\<close>

record Cmd =
  Path :: string
  Argv :: "string list"
  CmdEnv :: "string list option"
  Inherited :: bool

definition exec_Command :: "string \<Rightarrow> string list \<Rightarrow> Cmd" where
  "exec_Command name arg = \<lparr>Path = name, Argv = arg, CmdEnv = None, Inherited = False\<rparr>"

definition SetEnv :: "string list option \<Rightarrow> Cmd \<Rightarrow> Cmd" where
  "SetEnv env cmd = cmd\<lparr>CmdEnv := env\<rparr>"

definition InheritOutput :: "Cmd \<Rightarrow> Cmd" where
  "InheritOutput cmd = cmd\<lparr>Inherited := True\<rparr>"

text \<open>
  The flag set that \<open>gpflag.Parse\<close> derives from the struct has one flag for each exported
  field and none for an unexported one; \<open>flags\<close> holds the values of these eight flags.
  The help flag and the flags of \<open>flag.CommandLine\<close>, which \<open>Execute\<close> adds to the set,
  belong to no field of the record.
\<close>

record flags =
  flake_attempts :: int
  ginkgo_args :: string
  parallel :: int
  skip_regex :: string
  focus_regex :: string
  timeout :: int
  env :: "string list option"
  repo :: string

definition flags_of :: "Tester \<Rightarrow> flags" where
  "flags_of t =
     \<lparr>flake_attempts = FlakeAttempts t, ginkgo_args = GinkgoArgs t, parallel = Parallel t,
      skip_regex = SkipRegex t, focus_regex = FocusRegex t, timeout = Timeout t,
      env = Env t, repo = Repo t\<rparr>"

definition store_flags :: "flags \<Rightarrow> Tester \<Rightarrow> Tester" where
  "store_flags fv t =
     t\<lparr>FlakeAttempts := flake_attempts fv, GinkgoArgs := ginkgo_args fv,
       Parallel := parallel fv, SkipRegex := skip_regex fv, FocusRegex := focus_regex fv,
       Timeout := timeout fv, Env := env fv, Repo := repo fv\<rparr>"

text \<open>
  What lies outside the package. A callee that returns a Go \<open>error\<close> gives \<open>None\<close> for nil
  and the message otherwise.
  \<^item> \<open>GitTag\<close>: the package variable of that name, set when the program is linked;
  \<^item> \<open>os_Args\<close>: the command line;
  \<^item> \<open>gpflag_Parse\<close>: the error of building the flag set from the struct;
  \<^item> \<open>fs_Parse\<close>: parsing the command line, from the arguments and the values the flags
    hold before: the error, the values the flags hold afterwards (also after an error,
    when the flags before the bad one are already stored) and the value of the help flag;
  \<^item> \<open>LookupEnv\<close>: the process environment; \<open>Getwd\<close>: the working directory or an error;
  \<^item> \<open>WriteVersionToMetadata\<close>, \<open>PlainClone\<close>, \<open>BaseDir\<close>, \<open>Run\<close>: the callees of those
    names in kubetest2 and go-git.

  A run calls each of them at most once, so a function of the arguments is enough.
\<close>

record world =
  GitTag :: string
  os_Args :: "string list"
  gpflag_Parse :: "string option"
  fs_Parse :: "string list \<Rightarrow> flags \<Rightarrow> string option \<times> flags \<times> bool"
  LookupEnv :: "string \<Rightarrow> string option"
  Getwd :: "string + string"
  WriteVersionToMetadata :: "string \<Rightarrow> string option"
  PlainClone :: "string \<Rightarrow> bool \<Rightarrow> string \<Rightarrow> string option"
  BaseDir :: string
  Run :: "Cmd \<Rightarrow> string option"

text \<open>
  A call that reaches outside the package is recorded, in order, with its arguments.
  Logging through klog is left out.
\<close>

datatype event =
    Call_WriteVersionToMetadata string
  | Call_PlainClone string bool string
  | Call_LookupEnv string
  | Call_Getwd
  | Call_PrintDefaults_Stdout
  | Call_Run Cmd

fun runs :: "event list \<Rightarrow> Cmd list" where
  "runs [] = []"
| "runs (Call_Run cmd # evs) = cmd # runs evs"
| "runs (_ # evs) = runs evs"

fun clones :: "event list \<Rightarrow> (string \<times> bool \<times> string) list" where
  "clones [] = []"
| "clones (Call_PlainClone path isBare url # evs) = (path, isBare, url) # clones evs"
| "clones (_ # evs) = clones evs"

subsection \<open>The functions of the package\<close>

text \<open>
  A method on \<open>*Tester\<close> takes the world and the record and returns the error (\<open>None\<close> for
  nil), the record as the method leaves it, and the calls it made.
\<close>

definition initKubetest2Info :: "world \<Rightarrow> Tester \<Rightarrow> error option \<times> Tester \<times> event list" where
  "initKubetest2Info x t =
     (case LookupEnv x ''KUBETEST2_RUN_DIR'' of
        Some dir \<Rightarrow> (None, t\<lparr>runDir := dir\<rparr>, [Call_LookupEnv ''KUBETEST2_RUN_DIR''])
      | None \<Rightarrow>
          (case Getwd x of
             Inl err \<Rightarrow>
               (Some (Errorf (''failed to set run dir: '' @ err)), t,
                [Call_LookupEnv ''KUBETEST2_RUN_DIR'', Call_Getwd])
           | Inr dir \<Rightarrow>
               (None, t\<lparr>runDir := dir\<rparr>,
                [Call_LookupEnv ''KUBETEST2_RUN_DIR'', Call_Getwd])))"

definition pretestSetup :: "world \<Rightarrow> Tester \<Rightarrow> error option \<times> Tester \<times> event list" where
  "pretestSetup x t =
     (case PlainClone x (runDir t) False (Repo t) of
        Some err \<Rightarrow>
          (Some (Errorf (''failed to clone repo: '' @ err)), t,
           [Call_PlainClone (runDir t) False (Repo t)])
      | None \<Rightarrow> (None, t, [Call_PlainClone (runDir t) False (Repo t)]))"

text \<open>The two local slices of \<open>Test\<close>, by the names they have there.\<close>

definition e2eTestArgs :: "world \<Rightarrow> Tester \<Rightarrow> string list" where
  "e2eTestArgs x t =
     [''--kubeconfig='' @ kubeconfigPath t,
      ''--ginkgo.skip='' @ SkipRegex t,
      ''--ginkgo.focus='' @ FocusRegex t,
      ''--report-dir='' @ BaseDir x,
      ''--ginkgo.timeout='' @ Duration_String (Timeout t)]"

definition ginkgoArgs :: "string list \<Rightarrow> world \<Rightarrow> Tester \<Rightarrow> string list" where
  "ginkgoArgs extraGingkoArgs x t =
     (extraGingkoArgs @ [''--nodes='' @ Itoa (Parallel t), e2eTestPath t, ''--''])
     @ e2eTestArgs x t"

definition Test :: "world \<Rightarrow> Tester \<Rightarrow> error option \<times> Tester \<times> event list" where
  "Test x t =
     (case WriteVersionToMetadata x (GitTag x) of
        Some err \<Rightarrow> (Some (Foreign err), t, [Call_WriteVersionToMetadata (GitTag x)])
      | None \<Rightarrow>
     (case pretestSetup x t of
        (Some err, t1, ev1) \<Rightarrow> (Some err, t1, Call_WriteVersionToMetadata (GitTag x) # ev1)
      | (None, t1, ev1) \<Rightarrow>
     (case (if kubeconfigPath t1 = [] then
              (case LookupEnv x ''KUBECONFIG'' of
                 Some kubeconfig \<Rightarrow>
                   (None, t1\<lparr>kubeconfigPath := kubeconfig\<rparr>, [Call_LookupEnv ''KUBECONFIG''])
               | None \<Rightarrow>
                   (Some (Errorf ''kubeconfig path not provided''), t1,
                    [Call_LookupEnv ''KUBECONFIG'']))
            else (None, t1, [])) of
        (Some err, t2, ev2) \<Rightarrow>
          (Some err, t2, Call_WriteVersionToMetadata (GitTag x) # ev1 @ ev2)
      | (None, t2, ev2) \<Rightarrow>
     (case Split (GinkgoArgs t2) of
        Inl err \<Rightarrow>
          (Some (Errorf (''error parsing --gingko-args: '' @ err)), t2,
           Call_WriteVersionToMetadata (GitTag x) # ev1 @ ev2)
      | Inr extraGingkoArgs \<Rightarrow>
          (let cmd = InheritOutput (SetEnv (Env t2)
                       (exec_Command (ginkgoPath t2) (ginkgoArgs extraGingkoArgs x t2)))
           in (map_option Foreign (Run x cmd), t2,
               Call_WriteVersionToMetadata (GitTag x) # ev1 @ ev2 @ [Call_Run cmd]))))))"

definition Execute :: "world \<Rightarrow> Tester \<Rightarrow> error option \<times> Tester \<times> event list" where
  "Execute x t =
     (case gpflag_Parse x of
        Some err \<Rightarrow> (Some (Errorf (''failed to initialize tester: '' @ err)), t, [])
      | None \<Rightarrow>
     (case fs_Parse x (os_Args x) (flags_of t) of
        (Some err, fv, help) \<Rightarrow>
          (Some (Errorf (''failed to parse flags: '' @ err)), store_flags fv t, [])
      | (None, fv, help) \<Rightarrow>
          if help then (None, store_flags fv t, [Call_PrintDefaults_Stdout])
          else
            (case initKubetest2Info x (store_flags fv t) of
               (Some err, t1, ev1) \<Rightarrow> (Some err, t1, ev1)
             | (None, t1, ev1) \<Rightarrow>
                 (case Test x t1 of (r, t2, ev2) \<Rightarrow> (r, t2, ev1 @ ev2)))))"

definition NewDefaultTester :: Tester where
  "NewDefaultTester =
     \<lparr>FlakeAttempts = 1, GinkgoArgs = [], Parallel = 1, SkipRegex = [], FocusRegex = [],
      Timeout = 24 * Hour, Env = None, Repo = [],
      kubeconfigPath = [], runDir = [], e2eTestPath = [], ginkgoPath = [], kubectlPath = []\<rparr>"

text \<open>
  \<open>Main\<close> returns, or ends the process through \<open>klog.Fatalf\<close> with the message given.
\<close>

datatype exit = Returns | Fatalf string

definition Main :: "world \<Rightarrow> exit \<times> Tester \<times> event list" where
  "Main x =
     (case Execute x NewDefaultTester of
        (Some err, t, ev) \<Rightarrow> (Fatalf (''failed to run ginkgo tester: '' @ Error err), t, ev)
      | (None, t, ev) \<Rightarrow> (Returns, t, ev))"

subsection \<open>A run on a build machine, for examples\<close>

text \<open>
  Both variables of the environment are set and every callee succeeds. The command line
  of \<open>ci_world\<close> holds no flag, so parsing it leaves every value as it is. \<open>ci_tester\<close> is
  a record as \<open>Test\<close> finds it, after some flags were parsed and the run directory was
  resolved.
\<close>

definition ci_world :: world where
  "ci_world =
     \<lparr>GitTag = ''v0.1.0'',
      os_Args = [''kubetest2-tester-gitremote''],
      gpflag_Parse = None,
      fs_Parse = (\<lambda>args fv. (None, fv, False)),
      LookupEnv = (\<lambda>name. if name = ''KUBECONFIG'' then Some ''/ci/kubeconfig''
                          else if name = ''KUBETEST2_RUN_DIR'' then Some ''/ci/run''
                          else None),
      Getwd = Inr ''/ci'',
      WriteVersionToMetadata = (\<lambda>tag. None),
      PlainClone = (\<lambda>path isBare url. None),
      BaseDir = ''/ci/_artifacts'',
      Run = (\<lambda>cmd. None)\<rparr>"

definition ci_tester :: Tester where
  "ci_tester =
     NewDefaultTester\<lparr>GinkgoArgs := ''-v --trace'', Parallel := 4, SkipRegex := ''Slow'',
       FocusRegex := ''Conformance'', Repo := ''https://example.org/suite.git'',
       runDir := ''/ci/run''\<rparr>"

text \<open>The same record with other extra arguments.\<close>

definition ci_tester_with :: "string \<Rightarrow> Tester" where
  "ci_tester_with args = ci_tester\<lparr>GinkgoArgs := args\<rparr>"

text \<open>
  The command this run hands to its subprocess when the extra arguments split into
  \<open>extra\<close>: the runner path and the suite path are empty, the kubeconfig is the one of
  the environment.
\<close>

definition ci_cmd :: "string list \<Rightarrow> Cmd" where
  "ci_cmd extra =
     \<lparr>Path = [],
      Argv = extra @
        [''--nodes=4'', [], ''--'', ''--kubeconfig=/ci/kubeconfig'', ''--ginkgo.skip=Slow'',
         ''--ginkgo.focus=Conformance'', ''--report-dir=/ci/_artifacts'',
         ''--ginkgo.timeout=24h0m0s''],
      CmdEnv = None, Inherited = True\<rparr>"

text \<open>
  The same machine with a command line that sets the three numbers out of their range;
  the flag library takes each of them as a valid value of its type. Here \<open>Run\<close> answers
  as os/exec does for a command without a path: it does not start and gives the error
  \<open>exec: no command\<close>.
\<close>

definition out_of_range_world :: world where
  "out_of_range_world =
     ci_world
       \<lparr>os_Args := [''kubetest2-tester-gitremote'', ''--repo=https://example.org/suite.git'',
                    ''--parallel=0'', ''--flake-attempts=0'', ''--timeout=-1ns''],
        fs_Parse := (\<lambda>args fv.
          (None,
           fv\<lparr>repo := ''https://example.org/suite.git'', parallel := 0,
              flake_attempts := 0, timeout := - 1\<rparr>,
           False)),
        Run := (\<lambda>cmd. if Path cmd = [] then Some ''exec: no command'' else None)\<rparr>"

section \<open>Evaluation lemmas\<close>

lemma decimal_small: "n < 10 \<Longrightarrow> decimal n = [digit_char n]"
  by (simp add: decimal.simps)

lemma decimal_big: "\<not> n < 10 \<Longrightarrow> decimal n = decimal (n div 10) @ [digit_char (n mod 10)]"
  by (subst decimal.simps) simp

lemma digit_char_simps:
  "digit_char 0 = CHR ''0''" "digit_char 1 = CHR ''1''" "digit_char (Suc 0) = CHR ''1''"
  "digit_char 2 = CHR ''2''" "digit_char 3 = CHR ''3''" "digit_char 4 = CHR ''4''"
  "digit_char 5 = CHR ''5''" "digit_char 6 = CHR ''6''" "digit_char 7 = CHR ''7''"
  "digit_char 8 = CHR ''8''" "digit_char 9 = CHR ''9''"
  by (simp_all add: digit_char_def char_of_def bit_iff_odd_drop_bit drop_bit_eq_div)

lemma fmtFrac_loop_numeral:
  "fmtFrac_loop (numeral k) buf v print =
     (let digit = v mod 10;
          print' = (print \<or> digit \<noteq> 0);
          buf' = (if print' then digit_char digit # buf else buf)
      in fmtFrac_loop (pred_numeral k) buf' (v div 10) print')"
  by (simp only: numeral_eq_Suc [of k] fmtFrac_loop.simps)

lemmas number_eval =
  decimal_small decimal_big digit_char_simps Itoa_def Duration_String_def fmtInt_def
  fmtFrac_def fmtFrac_loop_numeral Second_def Millisecond_def Microsecond_def Hour_def Let_def

lemma Itoa_examples:
  "Itoa 0 = ''0''" "Itoa 1 = ''1''" "Itoa 4 = ''4''" "Itoa 10 = ''10''"
  "Itoa 1234 = ''1234''" "Itoa (- 37) = ''-37''"
  by (simp_all add: number_eval)

lemma Duration_String_examples:
  "Duration_String 0 = ''0s''"
  "Duration_String 1 = ''1ns''"
  "Duration_String (- 1) = ''-1ns''"
  "Duration_String 1500000 = ''1.5ms''"
  "Duration_String 1500000000 = ''1.5s''"
  "Duration_String (- 90000000000) = ''-1m30s''"
  "Duration_String 3723004005006 = ''1h2m3.004005006s''"
  "Duration_String (24 * Hour) = ''24h0m0s''"
  by (simp_all add: number_eval)

lemma Split_examples:
  "Split [] = Inr []"
  "Split ''-v --trace'' = Inr [''-v'', ''--trace'']"
  "Split ''--nodes=4'' = Inr [''--nodes=4'']"
  "Split ''  a   b  '' = Inr [''a'', ''b'']"
  "Split (''a'' @ [escapeChar] @ '' b c'') = Inr [''a b'', ''c'']"
  "Split (''a '' @ [singleChar, singleChar] @ '' b'') = Inr [''a'', [], ''b'']"
  "Split (''a '' @ [escapeChar]) = Inl UnterminatedEscapeError"
  "Split (''a '' @ [doubleChar] @ ''zz'') = Inl UnterminatedDoubleQuoteError"
  by code_simp+

section \<open>The outcomes of \<open>Test\<close>\<close>

lemma Test_metadata_error:
  "WriteVersionToMetadata x (GitTag x) = Some e \<Longrightarrow>
   Test x t = (Some (Foreign e), t, [Call_WriteVersionToMetadata (GitTag x)])"
  by (simp add: Test_def)

lemma Test_clone_error:
  "WriteVersionToMetadata x (GitTag x) = None \<Longrightarrow>
   PlainClone x (runDir t) False (Repo t) = Some e \<Longrightarrow>
   Test x t = (Some (Errorf (''failed to clone repo: '' @ e)), t,
     [Call_WriteVersionToMetadata (GitTag x), Call_PlainClone (runDir t) False (Repo t)])"
  by (simp add: Test_def pretestSetup_def)

lemma Test_kubeconfig_error:
  "WriteVersionToMetadata x (GitTag x) = None \<Longrightarrow>
   PlainClone x (runDir t) False (Repo t) = None \<Longrightarrow>
   kubeconfigPath t = [] \<Longrightarrow> LookupEnv x ''KUBECONFIG'' = None \<Longrightarrow>
   Test x t = (Some (Errorf ''kubeconfig path not provided''), t,
     [Call_WriteVersionToMetadata (GitTag x), Call_PlainClone (runDir t) False (Repo t),
      Call_LookupEnv ''KUBECONFIG''])"
  by (simp add: Test_def pretestSetup_def)

lemma Test_lookup_split_error:
  "WriteVersionToMetadata x (GitTag x) = None \<Longrightarrow>
   PlainClone x (runDir t) False (Repo t) = None \<Longrightarrow>
   kubeconfigPath t = [] \<Longrightarrow> LookupEnv x ''KUBECONFIG'' = Some k \<Longrightarrow>
   Split (GinkgoArgs t) = Inl e \<Longrightarrow>
   Test x t = (Some (Errorf (''error parsing --gingko-args: '' @ e)), t\<lparr>kubeconfigPath := k\<rparr>,
     [Call_WriteVersionToMetadata (GitTag x), Call_PlainClone (runDir t) False (Repo t),
      Call_LookupEnv ''KUBECONFIG''])"
  by (simp add: Test_def pretestSetup_def)

lemma Test_given_split_error:
  "WriteVersionToMetadata x (GitTag x) = None \<Longrightarrow>
   PlainClone x (runDir t) False (Repo t) = None \<Longrightarrow>
   kubeconfigPath t \<noteq> [] \<Longrightarrow>
   Split (GinkgoArgs t) = Inl e \<Longrightarrow>
   Test x t = (Some (Errorf (''error parsing --gingko-args: '' @ e)), t,
     [Call_WriteVersionToMetadata (GitTag x), Call_PlainClone (runDir t) False (Repo t)])"
  by (simp add: Test_def pretestSetup_def)

lemma Test_lookup_run:
  "WriteVersionToMetadata x (GitTag x) = None \<Longrightarrow>
   PlainClone x (runDir t) False (Repo t) = None \<Longrightarrow>
   kubeconfigPath t = [] \<Longrightarrow> LookupEnv x ''KUBECONFIG'' = Some k \<Longrightarrow>
   Split (GinkgoArgs t) = Inr extra \<Longrightarrow>
   cmd = InheritOutput (SetEnv (Env t) (exec_Command (ginkgoPath t)
            (ginkgoArgs extra x (t\<lparr>kubeconfigPath := k\<rparr>)))) \<Longrightarrow>
   Test x t = (map_option Foreign (Run x cmd), t\<lparr>kubeconfigPath := k\<rparr>,
     [Call_WriteVersionToMetadata (GitTag x), Call_PlainClone (runDir t) False (Repo t),
      Call_LookupEnv ''KUBECONFIG'', Call_Run cmd])"
  by (simp add: Test_def pretestSetup_def Let_def)

lemma Test_given_run:
  "WriteVersionToMetadata x (GitTag x) = None \<Longrightarrow>
   PlainClone x (runDir t) False (Repo t) = None \<Longrightarrow>
   kubeconfigPath t \<noteq> [] \<Longrightarrow>
   Split (GinkgoArgs t) = Inr extra \<Longrightarrow>
   cmd = InheritOutput (SetEnv (Env t) (exec_Command (ginkgoPath t) (ginkgoArgs extra x t))) \<Longrightarrow>
   Test x t = (map_option Foreign (Run x cmd), t,
     [Call_WriteVersionToMetadata (GitTag x), Call_PlainClone (runDir t) False (Repo t),
      Call_Run cmd])"
  by (simp add: Test_def pretestSetup_def Let_def)

text \<open>A subprocess in the trace of \<open>Test\<close> tells how the run went up to there.\<close>

lemma Test_run_event:
  assumes "Test x t = (r, t', ev)" and "Call_Run cmd \<in> set ev"
  obtains extra where
    "WriteVersionToMetadata x (GitTag x) = None"
    "PlainClone x (runDir t) False (Repo t) = None"
    "Split (GinkgoArgs t) = Inr extra"
    "if kubeconfigPath t = [] then LookupEnv x ''KUBECONFIG'' = Some (kubeconfigPath t')
     else kubeconfigPath t' = kubeconfigPath t"
    "t' = t\<lparr>kubeconfigPath := kubeconfigPath t'\<rparr>"
    "cmd = InheritOutput (SetEnv (Env t) (exec_Command (ginkgoPath t) (ginkgoArgs extra x t')))"
    "r = map_option Foreign (Run x cmd)"
    "runs ev = [cmd]"
  using assms
  by (auto simp: Test_def pretestSetup_def Let_def split: option.splits sum.splits if_splits)

lemma Argv_of_cmd [simp]:
  "Argv (InheritOutput (SetEnv e (exec_Command name arg))) = arg"
  "Path (InheritOutput (SetEnv e (exec_Command name arg))) = name"
  "CmdEnv (InheritOutput (SetEnv e (exec_Command name arg))) = e"
  "Inherited (InheritOutput (SetEnv e (exec_Command name arg)))"
  by (simp_all add: InheritOutput_def SetEnv_def exec_Command_def)

text \<open>The example run.\<close>

lemma ci_world_simps [simp]:
  "GitTag ci_world = ''v0.1.0''"
  "gpflag_Parse ci_world = None"
  "fs_Parse ci_world args fv = (None, fv, False)"
  "LookupEnv ci_world ''KUBECONFIG'' = Some ''/ci/kubeconfig''"
  "LookupEnv ci_world ''KUBETEST2_RUN_DIR'' = Some ''/ci/run''"
  "Getwd ci_world = Inr ''/ci''"
  "WriteVersionToMetadata ci_world tag = None"
  "PlainClone ci_world path isBare url = None"
  "BaseDir ci_world = ''/ci/_artifacts''"
  "Run ci_world cmd = None"
  by (simp_all add: ci_world_def)

lemma ci_tester_simps [simp]:
  "FlakeAttempts (ci_tester_with args) = 1"
  "GinkgoArgs (ci_tester_with args) = args"
  "Parallel (ci_tester_with args) = 4"
  "SkipRegex (ci_tester_with args) = ''Slow''"
  "FocusRegex (ci_tester_with args) = ''Conformance''"
  "Timeout (ci_tester_with args) = 24 * Hour"
  "Env (ci_tester_with args) = None"
  "Repo (ci_tester_with args) = ''https://example.org/suite.git''"
  "kubeconfigPath (ci_tester_with args) = []"
  "runDir (ci_tester_with args) = ''/ci/run''"
  "e2eTestPath (ci_tester_with args) = []"
  "ginkgoPath (ci_tester_with args) = []"
  "kubectlPath (ci_tester_with args) = []"
  by (simp_all add: ci_tester_with_def ci_tester_def NewDefaultTester_def)

lemma ci_Test:
  "Split args = Inr extra \<Longrightarrow>
   Test ci_world (ci_tester_with args) =
     (None, (ci_tester_with args)\<lparr>kubeconfigPath := ''/ci/kubeconfig''\<rparr>,
      [Call_WriteVersionToMetadata ''v0.1.0'',
       Call_PlainClone ''/ci/run'' False ''https://example.org/suite.git'',
       Call_LookupEnv ''KUBECONFIG'',
       Call_Run (ci_cmd extra)])"
  by (subst Test_lookup_run [where k = "''/ci/kubeconfig''" and extra = extra, OF _ _ _ _ _ refl])
     (simp_all add: ginkgoArgs_def e2eTestArgs_def Itoa_examples Duration_String_examples
        InheritOutput_def SetEnv_def exec_Command_def ci_cmd_def)

text \<open>\<open>Test\<close> writes no field but \<open>kubeconfigPath\<close>.\<close>

lemma Test_keeps_fields:
  assumes "Test x t = (r, t', ev)"
  shows "t' = t\<lparr>kubeconfigPath := kubeconfigPath t'\<rparr>"
  using assms
  by (auto simp: Test_def pretestSetup_def Let_def split: option.splits sum.splits if_splits)

text \<open>The clone in the trace is the one of \<open>pretestSetup\<close>, and there is at most one.\<close>

lemma Test_clone_event:
  assumes "Test x t = (r, t', ev)" and "Call_PlainClone path isBare url \<in> set ev"
  shows "WriteVersionToMetadata x (GitTag x) = None \<and> path = runDir t \<and> isBare = False \<and> url = Repo t"
  using assms
  by (auto simp: Test_def pretestSetup_def Let_def split: option.splits sum.splits if_splits)

lemma Test_clones_once:
  "length (clones (snd (snd (Test x t)))) \<le> 1"
  by (auto simp: Test_def pretestSetup_def Let_def split: option.splits sum.splits if_splits)

text \<open>A step that fails before the subprocess ends the run with an error.\<close>

lemma Test_no_run:
  assumes "Split (GinkgoArgs t) = Inl e \<or> (kubeconfigPath t = [] \<and> LookupEnv x ''KUBECONFIG'' = None)
     \<or> PlainClone x (runDir t) False (Repo t) \<noteq> None \<or> WriteVersionToMetadata x (GitTag x) \<noteq> None"
  shows "runs (snd (snd (Test x t))) = [] \<and> fst (Test x t) \<noteq> None"
  using assms
  by (auto simp: Test_def pretestSetup_def Let_def split: option.splits sum.splits if_splits)

text \<open>The two strings of the spec.\<close>

lemma Split_claimed:
  "Split (''--foo bar --baz '' @ [singleChar] @ ''qux quux'' @ [singleChar]) =
     Inr [''--foo'', ''bar'', ''--baz'', ''qux quux'']"
  "Split (singleChar # ''unterminated'') = Inl UnterminatedSingleQuoteError"
  by code_simp+

lemma Test_split_error:
  assumes "Split (GinkgoArgs t) = Inl e"
    and "WriteVersionToMetadata x (GitTag x) = None"
    and "PlainClone x (runDir t) False (Repo t) = None"
    and "kubeconfigPath t = [] \<longrightarrow> LookupEnv x ''KUBECONFIG'' \<noteq> None"
  shows "fst (Test x t) = Some (Errorf (''error parsing --gingko-args: '' @ e))"
  using assms
  by (cases "kubeconfigPath t = []")
    (auto simp: Test_lookup_split_error Test_given_split_error)

text \<open>
  The error of \<open>Test\<close> when the extra arguments do not split, and when no kubeconfig is
  to be found: the first step that fails gives it.
\<close>

lemma Test_error_without_split:
  assumes "Split (GinkgoArgs t) = Inl e"
  shows "fst (Test x t) =
     (case WriteVersionToMetadata x (GitTag x) of
        Some m \<Rightarrow> Some (Foreign m)
      | None \<Rightarrow>
          (case PlainClone x (runDir t) False (Repo t) of
             Some m \<Rightarrow> Some (Errorf (''failed to clone repo: '' @ m))
           | None \<Rightarrow>
               if kubeconfigPath t = [] \<and> LookupEnv x ''KUBECONFIG'' = None
               then Some (Errorf ''kubeconfig path not provided'')
               else Some (Errorf (''error parsing --gingko-args: '' @ e))))"
  using assms
  by (auto simp: Test_def pretestSetup_def split: option.splits)

lemma Test_error_without_kubeconfig:
  assumes "LookupEnv x ''KUBECONFIG'' = None" and "kubeconfigPath t = []"
  shows "fst (Test x t) =
     (case WriteVersionToMetadata x (GitTag x) of
        Some m \<Rightarrow> Some (Foreign m)
      | None \<Rightarrow>
          (case PlainClone x (runDir t) False (Repo t) of
             Some m \<Rightarrow> Some (Errorf (''failed to clone repo: '' @ m))
           | None \<Rightarrow> Some (Errorf ''kubeconfig path not provided'')))"
  using assms
  by (auto simp: Test_def pretestSetup_def split: option.splits)

section \<open>The outcomes of \<open>Execute\<close>\<close>

text \<open>\<open>initKubetest2Info\<close> writes no field but \<open>runDir\<close>, and neither clones nor runs.\<close>

lemma initKubetest2Info_keeps_fields:
  assumes "initKubetest2Info x t = (r, t', ev)"
  shows "t' = t\<lparr>runDir := runDir t'\<rparr>"
  using assms by (auto simp: initKubetest2Info_def split: option.splits sum.splits)

lemma initKubetest2Info_events:
  assumes "initKubetest2Info x t = (r, t', ev)"
  shows "runs ev = []" and "clones ev = []"
  using assms by (auto simp: initKubetest2Info_def split: option.splits sum.splits)

text \<open>
  Once the flag set is built, the record \<open>Execute\<close> ends with holds the values of the
  flags in its exported fields; of the others only \<open>runDir\<close> and \<open>kubeconfigPath\<close> may
  have changed.
\<close>

lemma Execute_keeps_fields:
  assumes "gpflag_Parse x = None" and "fs_Parse x (os_Args x) (flags_of t) = (perr, fv, help)"
    and "Execute x t = (r, t', ev)"
  shows "t' = (store_flags fv t)\<lparr>runDir := runDir t', kubeconfigPath := kubeconfigPath t'\<rparr>"
proof (cases "perr = None \<and> \<not> help")
  case False
  with assms show ?thesis
    by (auto simp: Execute_def split: option.splits)
next
  case True
  obtain r1 t1 ev1 where init: "initKubetest2Info x (store_flags fv t) = (r1, t1, ev1)"
    by (cases "initKubetest2Info x (store_flags fv t)") auto
  note t1 = initKubetest2Info_keeps_fields [OF init]
  show ?thesis
  proof (cases r1)
    case (Some err)
    with assms True init have "t' = t1"
      by (simp add: Execute_def)
    with t1 show ?thesis by (metis Tester.surjective Tester.update_convs(9) Tester.update_convs(10))
  next
    case None
    obtain r2 t2 ev2 where test: "Test x t1 = (r2, t2, ev2)"
      by (cases "Test x t1") auto
    with assms True init None have "t' = t2"
      by (simp add: Execute_def)
    with t1 Test_keeps_fields [OF test] show ?thesis
      by (metis Tester.surjective Tester.update_convs(9) Tester.update_convs(10))
  qed
qed


text \<open>A subprocess in the trace of \<open>Execute\<close> is one of \<open>Test\<close>, run after the flags were parsed.\<close>

lemma Execute_run_event:
  assumes "Execute x t = (r, t', ev)" and "Call_Run cmd \<in> set ev"
  shows "\<exists>fv t1 ev1 ev2.
           fs_Parse x (os_Args x) (flags_of t) = (None, fv, False) \<and>
           initKubetest2Info x (store_flags fv t) = (None, t1, ev1) \<and>
           Test x t1 = (r, t', ev2) \<and> Call_Run cmd \<in> set ev2"
  using assms
  by (auto simp: Execute_def initKubetest2Info_def
      split: option.splits prod.splits if_splits sum.splits)

text \<open>The run with the numbers out of range.\<close>

lemma out_of_range_world_simps [simp]:
  "GitTag out_of_range_world = ''v0.1.0''"
  "gpflag_Parse out_of_range_world = None"
  "fs_Parse out_of_range_world args fv =
     (None, fv\<lparr>repo := ''https://example.org/suite.git'', parallel := 0,
              flake_attempts := 0, timeout := - 1\<rparr>, False)"
  "LookupEnv out_of_range_world = LookupEnv ci_world"
  "WriteVersionToMetadata out_of_range_world tag = None"
  "PlainClone out_of_range_world path isBare url = None"
  "BaseDir out_of_range_world = ''/ci/_artifacts''"
  "Run out_of_range_world cmd = (if Path cmd = [] then Some ''exec: no command'' else None)"
  by (simp_all add: out_of_range_world_def)

lemma out_of_range_Execute:
  "Execute out_of_range_world NewDefaultTester =
     (Some (Foreign ''exec: no command''),
      NewDefaultTester\<lparr>FlakeAttempts := 0, Parallel := 0, Timeout := - 1,
        Repo := ''https://example.org/suite.git'', runDir := ''/ci/run'',
        kubeconfigPath := ''/ci/kubeconfig''\<rparr>,
      [Call_LookupEnv ''KUBETEST2_RUN_DIR'',
       Call_WriteVersionToMetadata ''v0.1.0'',
       Call_PlainClone ''/ci/run'' False ''https://example.org/suite.git'',
       Call_LookupEnv ''KUBECONFIG'',
       Call_Run \<lparr>Path = [],
         Argv = [''--nodes=0'', [], ''--'', ''--kubeconfig=/ci/kubeconfig'', ''--ginkgo.skip='',
                 ''--ginkgo.focus='', ''--report-dir=/ci/_artifacts'', ''--ginkgo.timeout=-1ns''],
         CmdEnv = None, Inherited = True\<rparr>])"
proof -
  let ?t1 = "NewDefaultTester\<lparr>FlakeAttempts := 0, Parallel := 0, Timeout := - 1,
        Repo := ''https://example.org/suite.git'', runDir := ''/ci/run''\<rparr>"
  have init: "initKubetest2Info out_of_range_world
      (store_flags ((flags_of NewDefaultTester)\<lparr>repo := ''https://example.org/suite.git'', parallel := 0,
              flake_attempts := 0, timeout := - 1\<rparr>) NewDefaultTester) =
      (None, ?t1, [Call_LookupEnv ''KUBETEST2_RUN_DIR''])"
    by (simp add: initKubetest2Info_def store_flags_def flags_of_def NewDefaultTester_def)
  have test: "Test out_of_range_world ?t1 =
     (Some (Foreign ''exec: no command''), ?t1\<lparr>kubeconfigPath := ''/ci/kubeconfig''\<rparr>,
      [Call_WriteVersionToMetadata ''v0.1.0'',
       Call_PlainClone ''/ci/run'' False ''https://example.org/suite.git'',
       Call_LookupEnv ''KUBECONFIG'',
       Call_Run \<lparr>Path = [],
         Argv = [''--nodes=0'', [], ''--'', ''--kubeconfig=/ci/kubeconfig'', ''--ginkgo.skip='',
                 ''--ginkgo.focus='', ''--report-dir=/ci/_artifacts'', ''--ginkgo.timeout=-1ns''],
         CmdEnv = None, Inherited = True\<rparr>])"
    by (subst Test_lookup_run [where k = "''/ci/kubeconfig''" and extra = "[]", OF _ _ _ _ _ refl])
      (simp_all add: NewDefaultTester_def Split_examples ginkgoArgs_def
        e2eTestArgs_def Itoa_examples Duration_String_examples InheritOutput_def SetEnv_def
        exec_Command_def)
  show ?thesis
    by (simp add: Execute_def init test)
qed

text \<open>
  When every step before the runner succeeds, \<open>Execute\<close> starts it with the parsed values,
  whatever they are, and returns what running it returns.
\<close>

lemma Execute_reaches_runner:
  assumes gp: "gpflag_Parse x = None"
    and parse: "fs_Parse x (os_Args x) (flags_of t) = (None, fv, False)"
    and init: "initKubetest2Info x (store_flags fv t) = (None, t1, ev1)"
    and wv: "WriteVersionToMetadata x (GitTag x) = None"
    and clone: "PlainClone x (runDir t1) False (repo fv) = None"
    and kube: "if kubeconfigPath t = [] then LookupEnv x ''KUBECONFIG'' = Some k
               else kubeconfigPath t = k"
    and split: "Split (ginkgo_args fv) = Inr extra"
  shows "\<exists>cmd. runs (snd (snd (Execute x t))) = [cmd] \<and>
           fst (Execute x t) = map_option Foreign (Run x cmd) \<and>
           Path cmd = ginkgoPath t \<and> CmdEnv cmd = env fv \<and>
           Argv cmd =
             extra @
             [''--nodes='' @ Itoa (parallel fv), e2eTestPath t, ''--'',
              ''--kubeconfig='' @ k,
              ''--ginkgo.skip='' @ skip_regex fv,
              ''--ginkgo.focus='' @ focus_regex fv,
              ''--report-dir='' @ BaseDir x,
              ''--ginkgo.timeout='' @ Duration_String (timeout fv)]"
proof -
  note t1 = initKubetest2Info_keeps_fields [OF init]
  have f: "GinkgoArgs t1 = ginkgo_args fv" "Repo t1 = repo fv" "Parallel t1 = parallel fv"
    "SkipRegex t1 = skip_regex fv" "FocusRegex t1 = focus_regex fv" "Timeout t1 = timeout fv"
    "Env t1 = env fv" "kubeconfigPath t1 = kubeconfigPath t" "ginkgoPath t1 = ginkgoPath t"
    "e2eTestPath t1 = e2eTestPath t"
    by (subst t1, simp add: store_flags_def)+
  have noruns: "runs ev1 = []"
    using init by (rule initKubetest2Info_events)
  let ?t2 = "t1\<lparr>kubeconfigPath := k\<rparr>"
  let ?cmd = "InheritOutput (SetEnv (Env t1) (exec_Command (ginkgoPath t1)
                (ginkgoArgs extra x ?t2)))"
  have "\<exists>ev2. Test x t1 = (map_option Foreign (Run x ?cmd), ?t2, ev2) \<and> runs ev2 = [?cmd]"
  proof (cases "kubeconfigPath t = []")
    case True
    with kube have "LookupEnv x ''KUBECONFIG'' = Some k" by simp
    with True wv clone split
    have "Test x t1 = (map_option Foreign (Run x ?cmd), ?t2,
       [Call_WriteVersionToMetadata (GitTag x), Call_PlainClone (runDir t1) False (Repo t1),
        Call_LookupEnv ''KUBECONFIG'', Call_Run ?cmd])"
      by (intro Test_lookup_run) (simp_all add: f)
    then show ?thesis by simp
  next
    case False
    with kube have k: "kubeconfigPath t1 = k" by (simp add: f)
    then have same: "?t2 = t1" by simp
    from False wv clone split
    have "Test x t1 = (map_option Foreign (Run x ?cmd), t1,
       [Call_WriteVersionToMetadata (GitTag x), Call_PlainClone (runDir t1) False (Repo t1),
        Call_Run ?cmd])"
      by (intro Test_given_run) (simp_all add: f same)
    then show ?thesis by (simp add: same)
  qed
  then obtain ev2 where test: "Test x t1 = (map_option Foreign (Run x ?cmd), ?t2, ev2)"
    and one: "runs ev2 = [?cmd]" by blast
  have runs_append: "runs (ev1 @ ev2) = runs ev1 @ runs ev2" for ev1 ev2
    by (induction ev1 rule: runs.induct) simp_all
  have exec: "Execute x t = (map_option Foreign (Run x ?cmd), ?t2, ev1 @ ev2)"
    by (simp add: Execute_def gp parse init test)
  have "Argv ?cmd =
             extra @
             [''--nodes='' @ Itoa (parallel fv), e2eTestPath t, ''--'',
              ''--kubeconfig='' @ k,
              ''--ginkgo.skip='' @ skip_regex fv,
              ''--ginkgo.focus='' @ focus_regex fv,
              ''--report-dir='' @ BaseDir x,
              ''--ginkgo.timeout='' @ Duration_String (timeout fv)]"
    by (simp add: ginkgoArgs_def e2eTestArgs_def f)
  with exec one noruns show ?thesis
    by (intro exI [of _ ?cmd]) (simp add: runs_append f)
qed

text \<open>In that world a record within the bounds ends with the same error.\<close>

lemma out_of_range_Test_in_range:
  "Split args = Inr extra \<Longrightarrow>
   fst (Test out_of_range_world (ci_tester_with args)) = Some (Foreign ''exec: no command'')"
  by (subst Test_lookup_run [where k = "''/ci/kubeconfig''" and extra = extra, OF _ _ _ _ _ refl])
     simp_all

section \<open>The claims\<close>

subsection \<open>C1: the order of the arguments\<close>

text \<open>
  C1. For every configuration whose \<open>GinkgoArgs\<close> splits without error, the argument
  vector that \<open>Test\<close> assembles and hands to the subprocess is exactly: the words of
  \<open>GinkgoArgs\<close> in the order of the split, then the one token \<open>--nodes=<Parallel>\<close>, the
  suite binary path, \<open>--\<close>, and then the kubeconfig path, the skip expression, the focus
  expression, the report directory and the timeout as \<open>Duration.String\<close> prints it. The
  kubeconfig path is the configured one, or the value of \<open>KUBECONFIG\<close> when none is
  configured; and this command is the only one the run starts.
\<close>

theorem C1_argument_order:
  assumes "Split (GinkgoArgs t) = Inr extra" and "Test x t = (r, t', ev)"
    and "Call_Run cmd \<in> set ev"
  shows "Argv cmd =
           extra @
           [''--nodes='' @ Itoa (Parallel t), e2eTestPath t, ''--'',
            ''--kubeconfig='' @ kubeconfigPath t',
            ''--ginkgo.skip='' @ SkipRegex t,
            ''--ginkgo.focus='' @ FocusRegex t,
            ''--report-dir='' @ BaseDir x,
            ''--ginkgo.timeout='' @ Duration_String (Timeout t)] \<and>
         (if kubeconfigPath t = [] then LookupEnv x ''KUBECONFIG'' = Some (kubeconfigPath t')
          else kubeconfigPath t' = kubeconfigPath t) \<and>
         runs ev = [cmd]"
proof -
  from assms(2,3) obtain extra' where
    split: "Split (GinkgoArgs t) = Inr extra'"
    and kube: "if kubeconfigPath t = [] then LookupEnv x ''KUBECONFIG'' = Some (kubeconfigPath t')
               else kubeconfigPath t' = kubeconfigPath t"
    and t': "t' = t\<lparr>kubeconfigPath := kubeconfigPath t'\<rparr>"
    and cmd: "cmd = InheritOutput (SetEnv (Env t) (exec_Command (ginkgoPath t) (ginkgoArgs extra' x t')))"
    and one: "runs ev = [cmd]"
    by (rule Test_run_event)
  from split assms(1) have same: "extra' = extra" by simp
  have fields: "Parallel t' = Parallel t" "e2eTestPath t' = e2eTestPath t"
    "SkipRegex t' = SkipRegex t" "FocusRegex t' = FocusRegex t" "Timeout t' = Timeout t"
    by (subst t', simp)+
  have "Argv cmd = ginkgoArgs extra x t'"
    using cmd same by simp
  then show ?thesis
    using kube one by (simp add: ginkgoArgs_def e2eTestArgs_def fields)
qed

theorem C1_argument_order_witness:
  "Split (GinkgoArgs (ci_tester_with ''-v --trace'')) = Inr [''-v'', ''--trace''] \<and>
   map Argv (runs (snd (snd (Test ci_world (ci_tester_with ''-v --trace''))))) =
     [[''-v'', ''--trace'', ''--nodes=4'', [], ''--'', ''--kubeconfig=/ci/kubeconfig'',
       ''--ginkgo.skip=Slow'', ''--ginkgo.focus=Conformance'',
       ''--report-dir=/ci/_artifacts'', ''--ginkgo.timeout=24h0m0s'']]"
proof -
  let ?t = "ci_tester_with ''-v --trace''"
  have split: "Split (GinkgoArgs ?t) = Inr [''-v'', ''--trace'']"
    by (simp add: Split_examples)
  note run = ci_Test [OF Split_examples(2)]
  have "Call_Run (ci_cmd [''-v'', ''--trace'']) \<in> set
          [Call_WriteVersionToMetadata ''v0.1.0'',
           Call_PlainClone ''/ci/run'' False ''https://example.org/suite.git'',
           Call_LookupEnv ''KUBECONFIG'', Call_Run (ci_cmd [''-v'', ''--trace''])]"
    by simp
  from C1_argument_order [OF split run this] show ?thesis
    using split by (simp add: run ci_cmd_def)
qed

subsection \<open>C2: the token for the parallelism\<close>

text \<open>
  C2 says that with \<open>Parallel = 4\<close> the vector holds the token \<open>--nodes=4\<close> exactly once.
  \<open>Test\<close> appends its own token to whatever the extra arguments hold, so extra arguments
  that hold the token already give it twice.
\<close>

theorem C2_one_nodes_token_counterexample:
  "Parallel (ci_tester_with ''--nodes=4'') = 4 \<and>
   Split (GinkgoArgs (ci_tester_with ''--nodes=4'')) = Inr [''--nodes=4''] \<and>
   map Argv (runs (snd (snd (Test ci_world (ci_tester_with ''--nodes=4''))))) =
     [[''--nodes=4'', ''--nodes=4'', [], ''--'', ''--kubeconfig=/ci/kubeconfig'',
       ''--ginkgo.skip=Slow'', ''--ginkgo.focus=Conformance'',
       ''--report-dir=/ci/_artifacts'', ''--ginkgo.timeout=24h0m0s'']] \<and>
   map (\<lambda>cmd. count_list (Argv cmd) ''--nodes=4'')
     (runs (snd (snd (Test ci_world (ci_tester_with ''--nodes=4''))))) = [2]"
  by (simp add: ci_Test [OF Split_examples(3)] Split_examples ci_cmd_def)


text \<open>
  C2 as amended. With \<open>Parallel = 4\<close> the vector holds \<open>--nodes=4\<close> once for the
  parallelism, once more for each occurrence among the words of \<open>GinkgoArgs\<close>, and once
  more if the suite path is that very token; the fixed flags never are. So the token
  occurs exactly once if and only if neither the extra arguments nor the suite path
  bring it.
\<close>

theorem C2_nodes_token_count:
  assumes "Parallel t = 4" and "Split (GinkgoArgs t) = Inr extra"
    and "Test x t = (r, t', ev)" and "Call_Run cmd \<in> set ev"
  shows "count_list (Argv cmd) ''--nodes=4'' =
           1 + count_list extra ''--nodes=4'' + (if e2eTestPath t = ''--nodes=4'' then 1 else 0) \<and>
         (count_list (Argv cmd) ''--nodes=4'' = 1) =
           (''--nodes=4'' \<notin> set extra \<and> e2eTestPath t \<noteq> ''--nodes=4'')"
proof -
  from assms(3,4) obtain extra' where
    split: "Split (GinkgoArgs t) = Inr extra'"
    and cmd: "cmd = InheritOutput (SetEnv (Env t) (exec_Command (ginkgoPath t) (ginkgoArgs extra' x t')))"
    by (rule Test_run_event)
  from split assms(2) have same: "extra' = extra" by simp
  note t' = Test_keeps_fields [OF assms(3)]
  have fields: "Parallel t' = 4" "e2eTestPath t' = e2eTestPath t"
    using assms(1) by (subst t', simp)+
  have argv: "Argv cmd = extra @ [''--nodes=4'', e2eTestPath t, ''--''] @ e2eTestArgs x t'"
    using cmd same by (simp add: ginkgoArgs_def fields Itoa_examples)
  have fixed: "count_list (e2eTestArgs x t') ''--nodes=4'' = 0"
    by (simp add: e2eTestArgs_def)
  have count: "count_list (Argv cmd) ''--nodes=4'' =
           1 + count_list extra ''--nodes=4'' + (if e2eTestPath t = ''--nodes=4'' then 1 else 0)"
    by (simp add: argv fixed)
  moreover have "(count_list extra ''--nodes=4'' = 0) = (''--nodes=4'' \<notin> set extra)"
    by (simp add: count_list_0_iff)
  ultimately show ?thesis by auto
qed

theorem C2_nodes_token_count_witness:
  "Parallel (ci_tester_with ''-v --trace'') = 4 \<and>
   map (\<lambda>cmd. count_list (Argv cmd) ''--nodes=4'')
     (runs (snd (snd (Test ci_world (ci_tester_with ''-v --trace''))))) = [1]"
proof -
  let ?t = "ci_tester_with ''-v --trace''"
  have par: "Parallel ?t = 4" by simp
  have split: "Split (GinkgoArgs ?t) = Inr [''-v'', ''--trace'']"
    by (simp add: Split_examples)
  note run = ci_Test [OF Split_examples(2)]
  have "Call_Run (ci_cmd [''-v'', ''--trace'']) \<in> set
          [Call_WriteVersionToMetadata ''v0.1.0'',
           Call_PlainClone ''/ci/run'' False ''https://example.org/suite.git'',
           Call_LookupEnv ''KUBECONFIG'', Call_Run (ci_cmd [''-v'', ''--trace''])]"
    by simp
  from C2_nodes_token_count [OF par split run this] show ?thesis
    by (simp add: run)
qed

subsection \<open>C3: splitting the extra arguments\<close>

text \<open>
  C3 says that \<open>--foo bar --baz 'qux quux'\<close> splits into four words, and that for the
  malformed \<open>'unterminated\<close> \<open>Test\<close> returns the error of the parse. The split is the
  fourth step of \<open>Test\<close>: when an earlier step fails, its error is returned and the
  string is never split. Here \<open>KUBECONFIG\<close> is not set.
\<close>

theorem C3_parse_error_counterexample:
  "Split (GinkgoArgs (ci_tester_with (singleChar # ''unterminated''))) =
     Inl UnterminatedSingleQuoteError \<and>
   fst (Test (ci_world\<lparr>LookupEnv := \<lambda>name. None\<rparr>)
          (ci_tester_with (singleChar # ''unterminated''))) =
     Some (Errorf ''kubeconfig path not provided'') \<and>
   fst (Test (ci_world\<lparr>LookupEnv := \<lambda>name. None\<rparr>)
          (ci_tester_with (singleChar # ''unterminated''))) \<noteq>
     Some (Errorf (''error parsing --gingko-args: '' @ UnterminatedSingleQuoteError))"
  by (simp add: Split_claimed Test_kubeconfig_error UnterminatedSingleQuoteError_def)


text \<open>
  C3 as amended. The first string splits into the four words and the second fails with
  the error for an open single quote. Whenever \<open>GinkgoArgs\<close> does not split, \<open>Test\<close>
  starts no subprocess and returns an error, the one of its first step that fails: the
  error of the version metadata, unchanged, when that write fails; else
  \<open>failed to clone repo: ...\<close> when the clone fails; else \<open>kubeconfig path not provided\<close>
  when no kubeconfig path is configured and \<open>KUBECONFIG\<close> is not set; and else, when
  these three steps have succeeded, \<open>error parsing --gingko-args: ...\<close> with the message
  of the split.
\<close>

theorem C3_split_rules:
  "Split (''--foo bar --baz '' @ [singleChar] @ ''qux quux'' @ [singleChar]) =
     Inr [''--foo'', ''bar'', ''--baz'', ''qux quux''] \<and>
   Split (singleChar # ''unterminated'') = Inl UnterminatedSingleQuoteError \<and>
   (\<forall>x t e. Split (GinkgoArgs t) = Inl e \<longrightarrow>
      runs (snd (snd (Test x t))) = [] \<and> fst (Test x t) \<noteq> None \<and>
      (WriteVersionToMetadata x (GitTag x) = None \<longrightarrow>
       PlainClone x (runDir t) False (Repo t) = None \<longrightarrow>
       (kubeconfigPath t = [] \<longrightarrow> LookupEnv x ''KUBECONFIG'' \<noteq> None) \<longrightarrow>
       fst (Test x t) = Some (Errorf (''error parsing --gingko-args: '' @ e))) \<and>
      fst (Test x t) =
        (case WriteVersionToMetadata x (GitTag x) of
           Some m \<Rightarrow> Some (Foreign m)
         | None \<Rightarrow>
             (case PlainClone x (runDir t) False (Repo t) of
                Some m \<Rightarrow> Some (Errorf (''failed to clone repo: '' @ m))
              | None \<Rightarrow>
                  if kubeconfigPath t = [] \<and> LookupEnv x ''KUBECONFIG'' = None
                  then Some (Errorf ''kubeconfig path not provided'')
                  else Some (Errorf (''error parsing --gingko-args: '' @ e)))))"
  using Split_claimed Test_no_run Test_split_error Test_error_without_split by blast

theorem C3_split_rules_witness:
  "Split (GinkgoArgs (ci_tester_with (singleChar # ''unterminated''))) =
     Inl UnterminatedSingleQuoteError \<and>
   WriteVersionToMetadata ci_world (GitTag ci_world) = None \<and>
   PlainClone ci_world (runDir (ci_tester_with (singleChar # ''unterminated''))) False
     (Repo (ci_tester_with (singleChar # ''unterminated''))) = None \<and>
   LookupEnv ci_world ''KUBECONFIG'' \<noteq> None \<and>
   runs (snd (snd (Test ci_world (ci_tester_with (singleChar # ''unterminated''))))) = [] \<and>
   fst (Test ci_world (ci_tester_with (singleChar # ''unterminated''))) =
     Some (Errorf ''error parsing --gingko-args: Unterminated single-quoted string'')"
proof -
  let ?t = "ci_tester_with (singleChar # ''unterminated'')"
  have split: "Split (GinkgoArgs ?t) = Inl UnterminatedSingleQuoteError"
    by (simp add: Split_claimed)
  from C3_split_rules have
    "Split (GinkgoArgs ?t) = Inl UnterminatedSingleQuoteError \<longrightarrow>
      runs (snd (snd (Test ci_world ?t))) = [] \<and> fst (Test ci_world ?t) \<noteq> None \<and>
      (WriteVersionToMetadata ci_world (GitTag ci_world) = None \<longrightarrow>
       PlainClone ci_world (runDir ?t) False (Repo ?t) = None \<longrightarrow>
       (kubeconfigPath ?t = [] \<longrightarrow> LookupEnv ci_world ''KUBECONFIG'' \<noteq> None) \<longrightarrow>
       fst (Test ci_world ?t) = Some (Errorf (''error parsing --gingko-args: '' @ UnterminatedSingleQuoteError)))"
    by blast
  with split show ?thesis
    by (simp add: UnterminatedSingleQuoteError_def)
qed

subsection \<open>C4: no kubeconfig\<close>

text \<open>
  C4 says that every run without \<open>KUBECONFIG\<close> and without a configured kubeconfig path
  makes \<open>Test\<close> return the error \<open>kubeconfig path not provided\<close>. \<open>Test\<close> looks for the
  kubeconfig only after the version metadata and the clone: when the clone fails, that
  error is the one returned.
\<close>

theorem C4_kubeconfig_missing_counterexample:
  "LookupEnv (ci_world\<lparr>LookupEnv := \<lambda>name. None,
                       PlainClone := \<lambda>path isBare url. Some ''repository not found''\<rparr>)
     ''KUBECONFIG'' = None \<and>
   kubeconfigPath (ci_tester_with ''-v'') = [] \<and>
   fst (Test (ci_world\<lparr>LookupEnv := \<lambda>name. None,
                        PlainClone := \<lambda>path isBare url. Some ''repository not found''\<rparr>)
          (ci_tester_with ''-v'')) =
     Some (Errorf ''failed to clone repo: repository not found'') \<and>
   fst (Test (ci_world\<lparr>LookupEnv := \<lambda>name. None,
                        PlainClone := \<lambda>path isBare url. Some ''repository not found''\<rparr>)
          (ci_tester_with ''-v'')) \<noteq>
     Some (Errorf ''kubeconfig path not provided'')"
  by (simp add: Test_clone_error)


text \<open>
  C4 as amended. In every run without \<open>KUBECONFIG\<close> and without a configured
  kubeconfig path \<open>Test\<close> starts no subprocess and returns an error, the one of its first
  step that fails: the error of the version metadata, unchanged, when that write fails;
  else \<open>failed to clone repo: ...\<close> when the clone fails; and else, when both have
  succeeded, \<open>kubeconfig path not provided\<close>. In this last case the record is unchanged,
  and the calls made are the metadata write, the clone and the lookup of \<open>KUBECONFIG\<close>.
\<close>

theorem C4_kubeconfig_missing:
  assumes "LookupEnv x ''KUBECONFIG'' = None" and "kubeconfigPath t = []"
  shows "runs (snd (snd (Test x t))) = [] \<and> fst (Test x t) \<noteq> None \<and>
         (WriteVersionToMetadata x (GitTag x) = None \<longrightarrow>
          PlainClone x (runDir t) False (Repo t) = None \<longrightarrow>
          Test x t =
            (Some (Errorf ''kubeconfig path not provided''), t,
             [Call_WriteVersionToMetadata (GitTag x),
              Call_PlainClone (runDir t) False (Repo t),
              Call_LookupEnv ''KUBECONFIG''])) \<and>
         fst (Test x t) =
           (case WriteVersionToMetadata x (GitTag x) of
              Some m \<Rightarrow> Some (Foreign m)
            | None \<Rightarrow>
                (case PlainClone x (runDir t) False (Repo t) of
                   Some m \<Rightarrow> Some (Errorf (''failed to clone repo: '' @ m))
                 | None \<Rightarrow> Some (Errorf ''kubeconfig path not provided'')))"
  using assms Test_no_run [of t _ x] Test_kubeconfig_error [of x t]
    Test_error_without_kubeconfig [of x t] by simp

theorem C4_kubeconfig_missing_witness:
  "LookupEnv (ci_world\<lparr>LookupEnv := \<lambda>name. None\<rparr>) ''KUBECONFIG'' = None \<and>
   kubeconfigPath (ci_tester_with ''-v'') = [] \<and>
   Test (ci_world\<lparr>LookupEnv := \<lambda>name. None\<rparr>) (ci_tester_with ''-v'') =
     (Some (Errorf ''kubeconfig path not provided''), ci_tester_with ''-v'',
      [Call_WriteVersionToMetadata ''v0.1.0'',
       Call_PlainClone ''/ci/run'' False ''https://example.org/suite.git'',
       Call_LookupEnv ''KUBECONFIG''])"
  using C4_kubeconfig_missing [of "ci_world\<lparr>LookupEnv := \<lambda>name. None\<rparr>" "ci_tester_with ''-v''"]
  by simp

subsection \<open>C5: a clone that fails\<close>

text \<open>
  C5. In every run in which the clone is attempted and fails, whatever the reason,
  \<open>Test\<close> returns the error \<open>failed to clone repo: ...\<close> that carries the message of the
  underlying error, it starts no subprocess, and the clone in the trace is the only one:
  it is not tried again. The clone is the one of the run directory and the configured
  repository, not bare, and the record is left as it was.
\<close>

theorem C5_clone_failure:
  assumes "Test x t = (r, t', ev)" and "Call_PlainClone path isBare url \<in> set ev"
    and "PlainClone x path isBare url = Some e"
  shows "r = Some (Errorf (''failed to clone repo: '' @ e)) \<and> runs ev = [] \<and>
         clones ev = [(path, isBare, url)] \<and> t' = t \<and>
         path = runDir t \<and> isBare = False \<and> url = Repo t"
proof -
  from Test_clone_event [OF assms(1,2)] have
    "WriteVersionToMetadata x (GitTag x) = None" and
    args: "path = runDir t" "isBare = False" "url = Repo t"
    by simp_all
  with assms(3) have
    "Test x t = (Some (Errorf (''failed to clone repo: '' @ e)), t,
       [Call_WriteVersionToMetadata (GitTag x), Call_PlainClone (runDir t) False (Repo t)])"
    by (simp add: Test_clone_error)
  with assms(1) args show ?thesis by auto
qed

theorem C5_clone_failure_witness:
  "PlainClone (ci_world\<lparr>PlainClone := \<lambda>path isBare url. Some ''repository not found''\<rparr>)
     ''/ci/run'' False ''https://example.org/suite.git'' = Some ''repository not found'' \<and>
   Test (ci_world\<lparr>PlainClone := \<lambda>path isBare url. Some ''repository not found''\<rparr>)
     (ci_tester_with ''-v'') =
     (Some (Errorf ''failed to clone repo: repository not found''), ci_tester_with ''-v'',
      [Call_WriteVersionToMetadata ''v0.1.0'',
       Call_PlainClone ''/ci/run'' False ''https://example.org/suite.git''])"
proof -
  let ?x = "ci_world\<lparr>PlainClone := \<lambda>path isBare url. Some ''repository not found''\<rparr>"
  let ?t = "ci_tester_with ''-v''"
  have run: "Test ?x ?t =
     (Some (Errorf ''failed to clone repo: repository not found''), ?t,
      [Call_WriteVersionToMetadata ''v0.1.0'',
       Call_PlainClone ''/ci/run'' False ''https://example.org/suite.git''])"
    by (simp add: Test_clone_error)
  have "Call_PlainClone ''/ci/run'' False ''https://example.org/suite.git'' \<in> set
      [Call_WriteVersionToMetadata ''v0.1.0'',
       Call_PlainClone ''/ci/run'' False ''https://example.org/suite.git'']" by simp
  from C5_clone_failure [OF run this, of "''repository not found''"] show ?thesis
    by (simp add: run)
qed

subsection \<open>C6: the help flag\<close>




subsection \<open>C7: bounds on the numbers\<close>

text \<open>
  C7 says that past flag parsing the parallelism and the flake attempts are at least 1
  and the timeout is not negative, and that a configuration outside these bounds makes
  the run fail. The package has no such check. With \<open>--parallel=0 --flake-attempts=0
  --timeout=-1ns\<close> the run goes past flag parsing with these values in the record: it
  resolves the run directory, writes the metadata, clones, and starts the runner with
  \<open>--nodes=0\<close> and \<open>--ginkgo.timeout=-1ns\<close>. The error it ends with is the one of starting
  a runner at the empty path, which a record within the bounds gets just the same.
\<close>

theorem C7_bounds_counterexample:
  "Parallel (fst (snd (Execute out_of_range_world NewDefaultTester))) = 0 \<and>
   FlakeAttempts (fst (snd (Execute out_of_range_world NewDefaultTester))) = 0 \<and>
   Timeout (fst (snd (Execute out_of_range_world NewDefaultTester))) = - 1 \<and>
   snd (snd (Execute out_of_range_world NewDefaultTester)) =
     [Call_LookupEnv ''KUBETEST2_RUN_DIR'',
      Call_WriteVersionToMetadata ''v0.1.0'',
      Call_PlainClone ''/ci/run'' False ''https://example.org/suite.git'',
      Call_LookupEnv ''KUBECONFIG'',
      Call_Run \<lparr>Path = [],
        Argv = [''--nodes=0'', [], ''--'', ''--kubeconfig=/ci/kubeconfig'', ''--ginkgo.skip='',
                ''--ginkgo.focus='', ''--report-dir=/ci/_artifacts'', ''--ginkgo.timeout=-1ns''],
        CmdEnv = None, Inherited = True\<rparr>] \<and>
   fst (Execute out_of_range_world NewDefaultTester) = Some (Foreign ''exec: no command'') \<and>
   Parallel (ci_tester_with ''-v --trace'') = 4 \<and>
   FlakeAttempts (ci_tester_with ''-v --trace'') = 1 \<and>
   Timeout (ci_tester_with ''-v --trace'') = 24 * Hour \<and>
   fst (Test out_of_range_world (ci_tester_with ''-v --trace'')) =
     Some (Foreign ''exec: no command'')"
  by (simp add: out_of_range_Execute out_of_range_Test_in_range [OF Split_examples(2)])

text \<open>
  C7 as amended. The defaults are within the bounds: one flake attempt, parallelism 1,
  a timeout of 24 hours. The package checks none of the three values. Whenever the flag
  set is built and the command line parses, the record at the end of \<open>Execute\<close> holds
  exactly the parsed values of the three fields, whatever they are. And whenever,
  without the help flag, the run directory is resolved, the version metadata is written,
  the clone succeeds, a kubeconfig path is found and the extra arguments split, \<open>Execute\<close>
  starts the runner, once, with \<open>--nodes=<Parallel>\<close> and \<open>--ginkgo.timeout=<Timeout>\<close> as
  parsed, whatever these values are, and returns exactly what running it returns.
\<close>

theorem C7_values_not_checked:
  "FlakeAttempts NewDefaultTester = 1 \<and> Parallel NewDefaultTester = 1 \<and>
   Timeout NewDefaultTester = 24 * Hour \<and> 0 \<le> Timeout NewDefaultTester \<and>
   (\<forall>x t fv help r t' ev.
      gpflag_Parse x = None \<longrightarrow>
      fs_Parse x (os_Args x) (flags_of t) = (None, fv, help) \<longrightarrow>
      Execute x t = (r, t', ev) \<longrightarrow>
      FlakeAttempts t' = flake_attempts fv \<and> Parallel t' = parallel fv \<and>
      Timeout t' = timeout fv) \<and>
   (\<forall>x t fv t1 ev1 k extra.
      gpflag_Parse x = None \<longrightarrow>
      fs_Parse x (os_Args x) (flags_of t) = (None, fv, False) \<longrightarrow>
      initKubetest2Info x (store_flags fv t) = (None, t1, ev1) \<longrightarrow>
      WriteVersionToMetadata x (GitTag x) = None \<longrightarrow>
      PlainClone x (runDir t1) False (repo fv) = None \<longrightarrow>
      (if kubeconfigPath t = [] then LookupEnv x ''KUBECONFIG'' = Some k
       else kubeconfigPath t = k) \<longrightarrow>
      Split (ginkgo_args fv) = Inr extra \<longrightarrow>
      (\<exists>cmd. runs (snd (snd (Execute x t))) = [cmd] \<and>
         fst (Execute x t) = map_option Foreign (Run x cmd) \<and>
         Path cmd = ginkgoPath t \<and> CmdEnv cmd = env fv \<and>
         Argv cmd =
           extra @
           [''--nodes='' @ Itoa (parallel fv), e2eTestPath t, ''--'',
            ''--kubeconfig='' @ k,
            ''--ginkgo.skip='' @ skip_regex fv,
            ''--ginkgo.focus='' @ focus_regex fv,
            ''--report-dir='' @ BaseDir x,
            ''--ginkgo.timeout='' @ Duration_String (timeout fv)]))"
proof -
  have keeps: "FlakeAttempts t' = flake_attempts fv \<and> Parallel t' = parallel fv \<and>
      Timeout t' = timeout fv"
    if "gpflag_Parse x = None" and "fs_Parse x (os_Args x) (flags_of t) = (None, fv, h)"
      and "Execute x t = (r, t', ev)" for x t fv h r t' ev
    by (subst (1 2 3) Execute_keeps_fields [OF that]) (simp add: store_flags_def)
  have defaults: "FlakeAttempts NewDefaultTester = 1 \<and> Parallel NewDefaultTester = 1 \<and>
   Timeout NewDefaultTester = 24 * Hour \<and> 0 \<le> Timeout NewDefaultTester"
    by (simp add: NewDefaultTester_def Hour_def)
  have stored: "\<forall>x t fv help r t' ev.
      gpflag_Parse x = None \<longrightarrow>
      fs_Parse x (os_Args x) (flags_of t) = (None, fv, help) \<longrightarrow>
      Execute x t = (r, t', ev) \<longrightarrow>
      FlakeAttempts t' = flake_attempts fv \<and> Parallel t' = parallel fv \<and>
      Timeout t' = timeout fv"
    using keeps by blast
  have reached: "\<forall>x t fv t1 ev1 k extra.
      gpflag_Parse x = None \<longrightarrow>
      fs_Parse x (os_Args x) (flags_of t) = (None, fv, False) \<longrightarrow>
      initKubetest2Info x (store_flags fv t) = (None, t1, ev1) \<longrightarrow>
      WriteVersionToMetadata x (GitTag x) = None \<longrightarrow>
      PlainClone x (runDir t1) False (repo fv) = None \<longrightarrow>
      (if kubeconfigPath t = [] then LookupEnv x ''KUBECONFIG'' = Some k
       else kubeconfigPath t = k) \<longrightarrow>
      Split (ginkgo_args fv) = Inr extra \<longrightarrow>
      (\<exists>cmd. runs (snd (snd (Execute x t))) = [cmd] \<and>
         fst (Execute x t) = map_option Foreign (Run x cmd) \<and>
         Path cmd = ginkgoPath t \<and> CmdEnv cmd = env fv \<and>
         Argv cmd =
           extra @
           [''--nodes='' @ Itoa (parallel fv), e2eTestPath t, ''--'',
            ''--kubeconfig='' @ k,
            ''--ginkgo.skip='' @ skip_regex fv,
            ''--ginkgo.focus='' @ focus_regex fv,
            ''--report-dir='' @ BaseDir x,
            ''--ginkgo.timeout='' @ Duration_String (timeout fv)])"
    by (intro allI impI) (rule Execute_reaches_runner)
  show ?thesis
    by (rule conjI [OF conjunct1 [OF defaults]], insert defaults stored reached) blast
qed

theorem C7_values_not_checked_witness:
  "gpflag_Parse out_of_range_world = None \<and>
   FlakeAttempts (fst (snd (Execute out_of_range_world NewDefaultTester))) = 0 \<and>
   Parallel (fst (snd (Execute out_of_range_world NewDefaultTester))) = 0 \<and>
   Timeout (fst (snd (Execute out_of_range_world NewDefaultTester))) = - 1 \<and>
   map Argv (runs (snd (snd (Execute out_of_range_world NewDefaultTester)))) =
     [[''--nodes=0'', [], ''--'', ''--kubeconfig=/ci/kubeconfig'', ''--ginkgo.skip='',
       ''--ginkgo.focus='', ''--report-dir=/ci/_artifacts'', ''--ginkgo.timeout=-1ns'']] \<and>
   fst (Execute out_of_range_world NewDefaultTester) = Some (Foreign ''exec: no command'')"
proof -
  have parse: "fs_Parse out_of_range_world (os_Args out_of_range_world) (flags_of NewDefaultTester) =
      (None, (flags_of NewDefaultTester)\<lparr>repo := ''https://example.org/suite.git'', parallel := 0,
              flake_attempts := 0, timeout := - 1\<rparr>, False)"
    by simp
  have init: "gpflag_Parse out_of_range_world = None"
    by simp
  from C7_values_not_checked init parse out_of_range_Execute show ?thesis
    by simp
qed

subsection \<open>C8: the record after flag parsing\<close>





subsection \<open>C9: the flake attempts\<close>

text \<open>
  C9. \<open>FlakeAttempts\<close> has no effect on what \<open>Test\<close> does: two records that differ in
  that field only give the same result, the same calls with the same arguments, hence
  the same subprocess with the same argument vector and the same environment, and
  records that differ in that field only. This holds for every value of the field,
  positive or not.
\<close>

theorem C9_flake_attempts_unused:
  "Test x (t\<lparr>FlakeAttempts := n\<rparr>) =
     (case Test x t of (r, t', ev) \<Rightarrow> (r, t'\<lparr>FlakeAttempts := n\<rparr>, ev))"
  by (simp add: Test_def pretestSetup_def Let_def ginkgoArgs_def e2eTestArgs_def
      split: option.splits sum.splits)

theorem C9_flake_attempts_unused_witness:
  "Test ci_world ((ci_tester_with ''-v --trace'')\<lparr>FlakeAttempts := 7\<rparr>) =
     (None, (ci_tester_with ''-v --trace'')\<lparr>kubeconfigPath := ''/ci/kubeconfig'', FlakeAttempts := 7\<rparr>,
      [Call_WriteVersionToMetadata ''v0.1.0'',
       Call_PlainClone ''/ci/run'' False ''https://example.org/suite.git'',
       Call_LookupEnv ''KUBECONFIG'',
       Call_Run (ci_cmd [''-v'', ''--trace''])])"
  using C9_flake_attempts_unused [where x = ci_world and t = "ci_tester_with ''-v --trace''" and n = 7]
  by (simp add: ci_Test [OF Split_examples(2)])

subsection \<open>C10: the paths of the runner and of the suite\<close>

text \<open>
  C10. In every run of \<open>Main\<close> that starts the subprocess, \<open>ginkgoPath\<close> and
  \<open>e2eTestPath\<close> are still the empty string they are in \<open>NewDefaultTester\<close>: no flag
  belongs to them and no function assigns them. So the runner is started at the empty
  path, and the token after \<open>--nodes=<Parallel>\<close>, where the suite path goes, is the
  empty string.
\<close>

theorem C10_paths_stay_empty:
  assumes "Main x = (out, t', ev)" and "Call_Run cmd \<in> set ev"
  shows "ginkgoPath t' = [] \<and> e2eTestPath t' = [] \<and> Path cmd = [] \<and>
         (\<exists>extra. Split (GinkgoArgs t') = Inr extra \<and>
            Argv cmd = extra @ [''--nodes='' @ Itoa (Parallel t'), [], ''--''] @ e2eTestArgs x t')"
proof -
  from assms(1) obtain r where exec: "Execute x NewDefaultTester = (r, t', ev)"
    by (auto simp: Main_def split: prod.splits option.splits)
  from Execute_run_event [OF exec assms(2)] obtain fv t1 ev1 ev2 where
    init: "initKubetest2Info x (store_flags fv NewDefaultTester) = (None, t1, ev1)"
    and test: "Test x t1 = (r, t', ev2)" and run: "Call_Run cmd \<in> set ev2"
    by blast
  note t1 = initKubetest2Info_keeps_fields [OF init]
  note t' = Test_keeps_fields [OF test]
  have paths1: "ginkgoPath t1 = []" "e2eTestPath t1 = []"
    by (subst t1, simp add: store_flags_def NewDefaultTester_def)+
  have paths: "ginkgoPath t' = []" "e2eTestPath t' = []" "GinkgoArgs t' = GinkgoArgs t1"
    by (subst t', simp add: paths1)+
  from test run obtain extra where
    split: "Split (GinkgoArgs t1) = Inr extra"
    and cmd: "cmd = InheritOutput (SetEnv (Env t1) (exec_Command (ginkgoPath t1) (ginkgoArgs extra x t')))"
    by (rule Test_run_event)
  from cmd have "Path cmd = []" and "Argv cmd = ginkgoArgs extra x t'"
    by (simp_all add: paths1)
  with split paths show ?thesis
    by (simp add: ginkgoArgs_def)
qed

theorem C10_paths_stay_empty_witness:
  "map Path (runs (snd (snd (Main out_of_range_world)))) = [[]] \<and>
   map (\<lambda>cmd. Argv cmd ! 1) (runs (snd (snd (Main out_of_range_world)))) = [[]] \<and>
   ginkgoPath (fst (snd (Main out_of_range_world))) = [] \<and>
   e2eTestPath (fst (snd (Main out_of_range_world))) = []"
proof -
  let ?cmd = "\<lparr>Path = [],
         Argv = [''--nodes=0'', [], ''--'', ''--kubeconfig=/ci/kubeconfig'', ''--ginkgo.skip='',
                 ''--ginkgo.focus='', ''--report-dir=/ci/_artifacts'', ''--ginkgo.timeout=-1ns''],
         CmdEnv = None, Inherited = True\<rparr>"
  have main: "Main out_of_range_world =
     (Fatalf ''failed to run ginkgo tester: exec: no command'',
      NewDefaultTester\<lparr>FlakeAttempts := 0, Parallel := 0, Timeout := - 1,
        Repo := ''https://example.org/suite.git'', runDir := ''/ci/run'',
        kubeconfigPath := ''/ci/kubeconfig''\<rparr>,
      [Call_LookupEnv ''KUBETEST2_RUN_DIR'',
       Call_WriteVersionToMetadata ''v0.1.0'',
       Call_PlainClone ''/ci/run'' False ''https://example.org/suite.git'',
       Call_LookupEnv ''KUBECONFIG'',
       Call_Run ?cmd])"
    by (simp add: Main_def out_of_range_Execute)
  have "Call_Run ?cmd \<in> set
      [Call_LookupEnv ''KUBETEST2_RUN_DIR'',
       Call_WriteVersionToMetadata ''v0.1.0'',
       Call_PlainClone ''/ci/run'' False ''https://example.org/suite.git'',
       Call_LookupEnv ''KUBECONFIG'',
       Call_Run ?cmd]" by simp
  from C10_paths_stay_empty [OF main this] show ?thesis
    by (simp add: main)
qed

end
